theory Spec2Isabelle
  imports Complex_Main
begin

section \<open>Text and values\<close>

text \<open>
  A Python \<open>str\<close> is a sequence of Unicode code points, so text is a list of natural
  numbers, one per code point. \<open>U\<close> embeds an ASCII literal of the source.
\<close>

type_synonym ustr = "nat list"

definition U :: "string \<Rightarrow> ustr" where
  "U s = map of_char s"

definition is_ascii :: "ustr \<Rightarrow> bool" where
  "is_ascii s = list_all (\<lambda>c. c < 128) s"

definition em_dash :: nat where "em_dash = 0x2014"
definition en_dash :: nat where "en_dash = 0x2013"

section \<open>The text sanitizer (\<open>sanitize_text\<close>)\<close>

text \<open>
  The argument of \<open>sanitize_text\<close> is untyped in the source. The values modelled are
  \<open>None\<close>, a \<open>str\<close>, an \<open>int\<close> and a \<open>bool\<close>; \<open>truthy\<close> is Python's truth
  value (what \<open>if not s\<close> tests) and \<open>py_str\<close> is the builtin \<open>str\<close>.
\<close>

datatype text_input = TNone | TStr ustr | TInt int | TBool bool

fun truthy :: "text_input \<Rightarrow> bool" where
  "truthy TNone = False"
| "truthy (TStr s) = (s \<noteq> [])"
| "truthy (TInt n) = (n \<noteq> 0)"
| "truthy (TBool b) = b"

function str_nat :: "nat \<Rightarrow> ustr" where
  \<comment> \<open>the decimal digits of a natural number, most significant first\<close>
  "str_nat n = (if n < 10 then [48 + n] else str_nat (n div 10) @ [48 + n mod 10])"
  by pat_completeness auto
termination
  by (relation "measure id") auto

declare str_nat.simps [simp del]

definition str_int :: "int \<Rightarrow> ustr" where
  "str_int i = (if i < 0 then 45 # str_nat (nat (- i)) else str_nat (nat i))"

fun py_str :: "text_input \<Rightarrow> ustr" where
  "py_str TNone = U ''None''"
| "py_str (TStr s) = s"
| "py_str (TInt n) = str_int n"
| "py_str (TBool b) = (if b then U ''True'' else U ''False'')"

text \<open>
  The replacement table, in the order the source's dict literal lists it (the loop
  runs over it in that order): em dash, en dash, the four curly quotes, the
  ellipsis, the no-break space.
\<close>

definition replacements :: "(nat \<times> ustr) list" where
  "replacements =
     [(0x2014, U ''-''), (0x2013, U ''-''),
      (0x2018, [39]), (0x2019, [39]),
      (0x201C, [34]), (0x201D, [34]),
      (0x2026, U ''...''), (0x00A0, U '' '')]"

definition replace_char :: "nat \<Rightarrow> ustr \<Rightarrow> ustr \<Rightarrow> ustr" where
  \<comment> \<open>\<open>s.replace(u, a)\<close> for a one-character \<open>u\<close>\<close>
  "replace_char u a s = concat (map (\<lambda>c. if c = u then a else [c]) s)"

definition apply_replacements :: "ustr \<Rightarrow> ustr" where
  "apply_replacements s = foldl (\<lambda>acc (u, a). replace_char u a acc) s replacements"

text \<open>
  \<open>s.encode('ascii', 'backslashreplace').decode('ascii')\<close>: a code point below 128
  is kept; any other becomes \<open>\xNN\<close>, \<open>\uNNNN\<close> or \<open>\UNNNNNNNN\<close> with lower-case
  hexadecimal digits, by its size.
\<close>

definition hex_digit :: "nat \<Rightarrow> nat" where
  "hex_digit d = (if d < 10 then 48 + d else 87 + d)"

definition hex_fixed :: "nat \<Rightarrow> nat \<Rightarrow> ustr" where
  "hex_fixed w n = map (\<lambda>i. hex_digit ((n div 16 ^ i) mod 16)) (rev [0..<w])"

definition backslash_escape :: "nat \<Rightarrow> ustr" where
  "backslash_escape c =
     (if c < 128 then [c]
      else if c < 0x100 then [92, 120] @ hex_fixed 2 c
      else if c < 0x10000 then [92, 117] @ hex_fixed 4 c
      else [92, 85] @ hex_fixed 8 c)"

definition encode_ascii_backslashreplace :: "ustr \<Rightarrow> ustr" where
  "encode_ascii_backslashreplace s = concat (map backslash_escape s)"

text \<open>
  \<open>unicodedata.normalize('NFKC', _)\<close> belongs to the Python standard library, not to
  this repository: the sanitizer takes it as the parameter \<open>nfkc\<close>.
\<close>

definition sanitize_text :: "(ustr \<Rightarrow> ustr) \<Rightarrow> text_input \<Rightarrow> ustr" where
  "sanitize_text nfkc s =
     (if \<not> truthy s then []
      else encode_ascii_backslashreplace (apply_replacements (nfkc (py_str s))))"

text \<open>
  A fragment of NFKC to run the sanitizer on: the two compatibility mappings that
  meet the replacement table (no-break space to space, ellipsis to three full
  stops) and the ligature \<open>fi\<close>; every other code point is kept.
\<close>

definition nfkc_fragment :: "ustr \<Rightarrow> ustr" where
  "nfkc_fragment s =
     concat (map (\<lambda>c. if c = 0x00A0 then [32]
                       else if c = 0x2026 then [46, 46, 46]
                       else if c = 0xFB01 then [102, 105]
                       else [c]) s)"

section \<open>The credential check of \<open>AIAnalyzer.__init__\<close>\<close>

text \<open>
  The three \<open>RuntimeError\<close>s of the constructor, told apart by their messages:
  "OPENAI_API_KEY is not set", "... contains em-dash or en-dash characters ..." and
  "... contains non-ASCII characters ...".
\<close>

datatype init_error = KeyNotSet | KeyHasDash | KeyNonAscii

record analyzer =
  api_key :: ustr
  model :: ustr

text \<open>
  The argument is the result of \<open>os.getenv\<close>: \<open>None\<close> when the variable is unset.
  \<open>api_key.encode('ascii')\<close> raises exactly when some code point is 128 or more.
  Building the client from a non-empty ASCII key is taken to succeed.
\<close>

definition init :: "ustr option \<Rightarrow> init_error + analyzer" where
  "init env =
     (case env of
        None \<Rightarrow> Inl KeyNotSet
      | Some k \<Rightarrow>
          if k = [] then Inl KeyNotSet
          else if \<not> is_ascii k then
            (if em_dash \<in> set k \<or> en_dash \<in> set k then Inl KeyHasDash else Inl KeyNonAscii)
          else Inr \<lparr>api_key = k, model = U ''gpt-5''\<rparr>)"

section \<open>Python values and exceptions\<close>

text \<open>
  The values that travel through the analysis are what \<open>json.loads\<close> and the
  market-data dictionary hold: \<open>None\<close>, booleans, numbers, text, lists and
  dictionaries. A dictionary is an association list in insertion order; a lookup
  takes the first entry of a key. Numbers are exact rationals: an \<open>int\<close> and a
  \<open>float\<close> of the same value are the same number here, and the rounding of binary
  floating point (as well as \<open>nan\<close> and \<open>inf\<close>) is outside the model.
\<close>

datatype pyval =
    PNone
  | PBool bool
  | PNum rat
  | PStr ustr
  | PList "pyval list"
  | PDict "(ustr \<times> pyval) list"

datatype py_exc = TypeError | ValueError | AttributeError | IndexError | ApiError

definition seq :: "py_exc + 'a \<Rightarrow> ('a \<Rightarrow> py_exc + 'b) \<Rightarrow> py_exc + 'b" where
  \<comment> \<open>run the rest of a \<open>try\<close> body unless an exception is already on its way\<close>
  "seq r f = (case r of Inl e \<Rightarrow> Inl e | Inr x \<Rightarrow> f x)"

definition catch :: "py_exc + 'a \<Rightarrow> 'a \<Rightarrow> 'a" where
  \<comment> \<open>\<open>except Exception: return fallback\<close>\<close>
  "catch r fallback = (case r of Inl e \<Rightarrow> fallback | Inr x \<Rightarrow> x)"

fun py_truthy :: "pyval \<Rightarrow> bool" where
  "py_truthy PNone = False"
| "py_truthy (PBool b) = b"
| "py_truthy (PNum q) = (q \<noteq> 0)"
| "py_truthy (PStr s) = (s \<noteq> [])"
| "py_truthy (PList xs) = (xs \<noteq> [])"
| "py_truthy (PDict kvs) = (kvs \<noteq> [])"

fun py_len :: "pyval \<Rightarrow> py_exc + nat" where
  "py_len (PStr s) = Inr (length s)"
| "py_len (PList xs) = Inr (length xs)"
| "py_len (PDict kvs) = Inr (length (remdups (map fst kvs)))"
| "py_len v = Inl TypeError"

fun as_num :: "pyval \<Rightarrow> py_exc + rat" where
  \<comment> \<open>the operand of an arithmetic operator; \<open>bool\<close> is a subclass of \<open>int\<close>\<close>
  "as_num (PNum q) = Inr q"
| "as_num (PBool b) = Inr (if b then 1 else 0)"
| "as_num v = Inl TypeError"

definition dict_get :: "pyval \<Rightarrow> ustr \<Rightarrow> pyval \<Rightarrow> py_exc + pyval" where
  \<comment> \<open>\<open>d.get(k, dflt)\<close>; only a dictionary has the method\<close>
  "dict_get d k dflt =
     (case d of
        PDict kvs \<Rightarrow> Inr (case map_of kvs k of Some v \<Rightarrow> v | None \<Rightarrow> dflt)
      | _ \<Rightarrow> Inl AttributeError)"

definition py_int :: "rat \<Rightarrow> int" where
  \<comment> \<open>\<open>int(x)\<close>: truncation towards zero\<close>
  "py_int q = (if 0 \<le> q then \<lfloor>q\<rfloor> else \<lceil>q\<rceil>)"

definition py_round :: "rat \<Rightarrow> int" where
  \<comment> \<open>\<open>round(x)\<close>: to the nearest integer, a tie to the even one\<close>
  "py_round q =
     (let f = \<lfloor>q\<rfloor>; d = q - of_int f
      in if d < 1 / 2 then f else if 1 / 2 < d then f + 1
         else if even f then f else f + 1)"

definition round1 :: "rat \<Rightarrow> rat" where
  \<comment> \<open>\<open>round(x, 1)\<close>\<close>
  "round1 q = of_int (py_round (q * 10)) / 10"

section \<open>The response parser (\<open>_parse_openai_json\<close>)\<close>

text \<open>
  A response carries a list of choices, each with a message. \<open>parsed\<close> and
  \<open>content\<close> are what \<open>getattr(msg, _, None)\<close> yields: \<open>PNone\<close> when the attribute
  is absent or \<open>None\<close>.
\<close>

record message =
  parsed :: pyval
  content :: pyval

record response =
  choices :: "message list"

definition py_isspace :: "nat \<Rightarrow> bool" where
  \<comment> \<open>the code points \<open>str.strip()\<close> removes\<close>
  "py_isspace c =
     ((9 \<le> c \<and> c \<le> 13) \<or> (28 \<le> c \<and> c \<le> 32) \<or> c = 0x85 \<or> c = 0xA0 \<or> c = 0x1680
      \<or> (0x2000 \<le> c \<and> c \<le> 0x200A) \<or> c = 0x2028 \<or> c = 0x2029 \<or> c = 0x202F
      \<or> c = 0x205F \<or> c = 0x3000)"

definition strip :: "ustr \<Rightarrow> ustr" where
  "strip s = rev (dropWhile py_isspace (rev (dropWhile py_isspace s)))"

text \<open>
  \<open>json.loads\<close> is the standard library's: the parser takes it as the parameter
  \<open>loads\<close>, with \<open>None\<close> for a \<open>JSONDecodeError\<close>. \<open>response.choices[0]\<close> raises
  \<open>IndexError\<close> when there is no choice.
\<close>

definition parse_openai_json :: "(ustr \<Rightarrow> pyval option) \<Rightarrow> response \<Rightarrow> py_exc + pyval" where
  "parse_openai_json loads r =
     (case choices r of
        [] \<Rightarrow> Inl IndexError
      | msg # _ \<Rightarrow>
          if parsed msg \<noteq> PNone then Inr (parsed msg)
          else (case content msg of
                  PStr s \<Rightarrow>
                    if strip s \<noteq> [] then
                      (case loads s of Some v \<Rightarrow> Inr v | None \<Rightarrow> Inr (PDict []))
                    else Inr (PDict [])
                | _ \<Rightarrow> Inr (PDict [])))"

text \<open>
  What a call of \<open>chat.completions.create\<close> does is decided outside the program: it
  raises (network failure, timeout, refused request) or it returns a response.
\<close>

datatype llm_outcome = Raises | Returns response

definition llm_call :: "llm_outcome \<Rightarrow> py_exc + response" where
  "llm_call out = (case out of Raises \<Rightarrow> Inl ApiError | Returns r \<Rightarrow> Inr r)"

section \<open>Stock mode\<close>

subsection \<open>Context preparation (\<open>_prepare_company_context\<close>)\<close>

record company_context =
  symbol :: pyval
  name :: pyval
  sector :: pyval
  industry :: pyval
  business_summary :: pyval
  market_cap :: pyval
  employees :: pyval
  revenue :: pyval
  website :: pyval
  country :: pyval

definition prepare_company_context :: "pyval \<Rightarrow> pyval \<Rightarrow> py_exc + company_context" where
  "prepare_company_context ticker company_info =
     seq (dict_get company_info (U ''longName'') (PStr (U ''Unknown''))) (\<lambda>v_name.
     seq (dict_get company_info (U ''sector'') (PStr (U ''Unknown''))) (\<lambda>v_sector.
     seq (dict_get company_info (U ''industry'') (PStr (U ''Unknown''))) (\<lambda>v_industry.
     seq (dict_get company_info (U ''longBusinessSummary'') (PStr [])) (\<lambda>v_summary.
     seq (dict_get company_info (U ''marketCap'') (PNum 0)) (\<lambda>v_cap.
     seq (dict_get company_info (U ''fullTimeEmployees'') (PNum 0)) (\<lambda>v_employees.
     seq (dict_get company_info (U ''totalRevenue'') (PNum 0)) (\<lambda>v_revenue.
     seq (dict_get company_info (U ''website'') (PStr [])) (\<lambda>v_website.
     seq (dict_get company_info (U ''country'') (PStr (U ''Unknown''))) (\<lambda>v_country.
     Inr \<lparr>symbol = ticker, name = v_name, sector = v_sector, industry = v_industry,
          business_summary = v_summary, market_cap = v_cap, employees = v_employees,
          revenue = v_revenue, website = v_website, country = v_country\<rparr>)))))))))"

subsection \<open>Prompts\<close>

text \<open>
  The text of a prompt reaches the remote model and nothing else, so a prompt is
  modelled by what building it can raise. \<open>sanitize_text\<close> and a plain \<open>{x}\<close> field
  accept every value; \<open>{x/1e9:.1f}\<close> needs a number, \<open>{x:,}\<close> a number too (a
  \<open>str\<close> gives \<open>ValueError\<close>, any other value \<open>TypeError\<close>),
  \<open>x[:3]\<close> a list or a \<open>str\<close>, and a loop over \<open>x\<close> a list, a \<open>str\<close> or a
  dictionary.
\<close>

fun format_thousands :: "pyval \<Rightarrow> py_exc + unit" where
  "format_thousands (PNum q) = Inr ()"
| "format_thousands (PBool b) = Inr ()"
| "format_thousands (PStr s) = Inl ValueError"
| "format_thousands v = Inl TypeError"

fun first_three :: "pyval \<Rightarrow> py_exc + unit" where
  "first_three (PList xs) = Inr ()"
| "first_three (PStr s) = Inr ()"
| "first_three v = Inl TypeError"

fun iterate :: "pyval \<Rightarrow> py_exc + unit" where
  "iterate (PList xs) = Inr ()"
| "iterate (PStr s) = Inr ()"
| "iterate (PDict kvs) = Inr ()"
| "iterate v = Inl TypeError"

definition strategy_prompt :: "company_context \<Rightarrow> py_exc + unit" where
  "strategy_prompt ctx =
     seq (as_num (market_cap ctx)) (\<lambda>_.
     format_thousands (employees ctx))"

definition recommendation_prompt :: "company_context \<Rightarrow> pyval \<Rightarrow> py_exc + unit" where
  "recommendation_prompt ctx ai_strategy =
     seq (as_num (market_cap ctx)) (\<lambda>_.
     seq (dict_get ai_strategy (U ''ai_maturity_score'') (PNum 5)) (\<lambda>_.
     seq (seq (dict_get ai_strategy (U ''ai_initiatives'') (PList [])) first_three) (\<lambda>_.
     seq (seq (dict_get ai_strategy (U ''competitive_advantages'') (PList [])) first_three) (\<lambda>_.
     seq (dict_get ai_strategy (U ''opportunities'') (PList [])) first_three))))"

definition story_prompt :: "company_context \<Rightarrow> pyval \<Rightarrow> py_exc + unit" where
  "story_prompt ctx ai_strategy =
     seq (seq (dict_get ai_strategy (U ''ai_initiatives'') (PList [])) iterate) (\<lambda>_.
     seq (seq (dict_get ai_strategy (U ''competitive_advantages'') (PList [])) iterate) (\<lambda>_.
     seq (seq (dict_get ai_strategy (U ''opportunities'') (PList [])) iterate) (\<lambda>_.
     seq (dict_get ai_strategy (U ''revenue_streams'') (PList [])) iterate)))"

subsection \<open>The AI-strategy stage (\<open>_analyze_ai_strategy\<close>)\<close>

definition strategy_fallback :: pyval where
  "strategy_fallback =
     PDict [(U ''ai_initiatives'', PList []),
            (U ''competitive_advantages'', PList []),
            (U ''revenue_streams'', PList []),
            (U ''partnerships'', PList []),
            (U ''opportunities'', PList []),
            (U ''risks'', PList []),
            (U ''ai_maturity_score'', PNum 5),
            (U ''overall_assessment'', PStr (U ''Unable to complete AI analysis at this time.''))]"

text \<open>
  The body of a stage's \<open>try\<close>: a truthy result is returned after its length has
  been logged (\<open>len(result)\<close> raises on a number or \<open>True\<close>), any other result
  becomes the empty dictionary.
\<close>

definition checked_result :: "pyval \<Rightarrow> py_exc + pyval" where
  "checked_result result =
     (if py_truthy result then seq (py_len result) (\<lambda>_. Inr result) else Inr (PDict []))"

definition strategy_body ::
  "(ustr \<Rightarrow> pyval option) \<Rightarrow> company_context \<Rightarrow> llm_outcome \<Rightarrow> py_exc + pyval" where
  "strategy_body loads ctx out =
     seq (strategy_prompt ctx) (\<lambda>_.
     seq (llm_call out) (\<lambda>resp.
     seq (parse_openai_json loads resp) checked_result))"

definition analyze_ai_strategy ::
  "(ustr \<Rightarrow> pyval option) \<Rightarrow> company_context \<Rightarrow> llm_outcome \<Rightarrow> pyval" where
  "analyze_ai_strategy loads ctx out = catch (strategy_body loads ctx out) strategy_fallback"

subsection \<open>The recommendation stage (\<open>_get_investment_recommendation\<close>)\<close>

definition recommendation_fallback :: pyval where
  "recommendation_fallback =
     PDict [(U ''action'', PStr (U ''HOLD'')),
            (U ''ai_score'', PNum 5),
            (U ''reasoning'', PStr (U ''Unable to complete investment analysis at this time.'')),
            (U ''key_catalysts'', PList []),
            (U ''risk_factors'', PList [])]"

definition recommendation_body ::
  "(ustr \<Rightarrow> pyval option) \<Rightarrow> company_context \<Rightarrow> pyval \<Rightarrow> llm_outcome \<Rightarrow> py_exc + pyval" where
  "recommendation_body loads ctx ai_strategy out =
     seq (recommendation_prompt ctx ai_strategy) (\<lambda>_.
     seq (llm_call out) (\<lambda>resp.
     parse_openai_json loads resp))"

definition get_investment_recommendation ::
  "(ustr \<Rightarrow> pyval option) \<Rightarrow> company_context \<Rightarrow> pyval \<Rightarrow> llm_outcome \<Rightarrow> pyval" where
  "get_investment_recommendation loads ctx ai_strategy out =
     catch (recommendation_body loads ctx ai_strategy out) recommendation_fallback"

subsection \<open>Local metrics (\<open>_calculate_ai_metrics\<close>)\<close>

definition sector_ai_multipliers :: "(ustr \<times> rat) list" where
  "sector_ai_multipliers =
     [(U ''Technology'', 15 / 10),
      (U ''Communication Services'', 12 / 10),
      (U ''Consumer Cyclical'', 1),
      (U ''Healthcare'', 11 / 10),
      (U ''Financial Services'', 11 / 10),
      (U ''Industrials'', 8 / 10),
      (U ''Consumer Defensive'', 7 / 10)]"

fun base_exposure :: "pyval \<Rightarrow> py_exc + rat" where
  \<comment> \<open>\<open>sector_ai_multipliers.get(sector, 0.8)\<close>: a list or a dictionary cannot be hashed;
      a key that is not text equals none of the table's\<close>
  "base_exposure (PStr s) =
     Inr (case map_of sector_ai_multipliers s of Some m \<Rightarrow> m | None \<Rightarrow> 8 / 10)"
| "base_exposure (PList xs) = Inl TypeError"
| "base_exposure (PDict kvs) = Inl TypeError"
| "base_exposure v = Inr (8 / 10)"

definition metrics_fallback :: pyval where
  "metrics_fallback =
     PDict [(U ''ai_revenue_exposure'', PNum 0),
            (U ''ai_partnerships'', PNum 0),
            (U ''ai_patents'', PNum 0),
            (U ''ai_investment_score'', PNum 5)]"

definition metrics_body :: "company_context \<Rightarrow> pyval \<Rightarrow> py_exc + pyval" where
  "metrics_body ctx ai_strategy =
     seq (dict_get ai_strategy (U ''ai_maturity_score'') (PNum 5)) (\<lambda>ai_score.
     seq (base_exposure (sector ctx)) (\<lambda>base.
     seq (seq (dict_get ai_strategy (U ''ai_initiatives'') (PList [])) py_len) (\<lambda>ai_initiatives_count.
     seq (as_num ai_score) (\<lambda>score.
     let estimated_ai_exposure = min 100 (base * score * 2 + of_nat ai_initiatives_count * 5) in
     seq (seq (dict_get ai_strategy (U ''partnerships'') (PList [])) py_len) (\<lambda>partnerships.
     let estimated_patents = max 0 (py_int (score * 10) + int partnerships * 5) in
     Inr (PDict [(U ''ai_revenue_exposure'', PNum (round1 estimated_ai_exposure)),
                 (U ''ai_partnerships'', PNum (of_nat partnerships)),
                 (U ''ai_patents'', PNum (of_int estimated_patents)),
                 (U ''ai_investment_score'', ai_score)]))))))"

definition calculate_ai_metrics :: "company_context \<Rightarrow> pyval \<Rightarrow> pyval" where
  "calculate_ai_metrics ctx ai_strategy = catch (metrics_body ctx ai_strategy) metrics_fallback"

subsection \<open>The AI-story stage (\<open>_generate_ai_story\<close>)\<close>

definition story_fallback :: pyval where
  "story_fallback =
     PDict [(U ''strategy_summary'', PStr (U ''AI strategy analysis not available at this time.'')),
            (U ''use_cases'', PList []),
            (U ''opportunities'', PList []),
            (U ''competitive_advantages'', PList [])]"

definition story_body ::
  "(ustr \<Rightarrow> pyval option) \<Rightarrow> company_context \<Rightarrow> pyval \<Rightarrow> llm_outcome \<Rightarrow> py_exc + pyval" where
  "story_body loads ctx ai_strategy out =
     seq (story_prompt ctx ai_strategy) (\<lambda>_.
     seq (llm_call out) (\<lambda>resp.
     parse_openai_json loads resp))"

definition generate_ai_story ::
  "(ustr \<Rightarrow> pyval option) \<Rightarrow> company_context \<Rightarrow> pyval \<Rightarrow> llm_outcome \<Rightarrow> pyval" where
  "generate_ai_story loads ctx ai_strategy out =
     catch (story_body loads ctx ai_strategy out) story_fallback"

subsection \<open>The orchestrator (\<open>analyze_ai_potential\<close>)\<close>

text \<open>
  Each stage makes at most one remote call; \<open>llm_script\<close> holds what each of the
  three calls does if it is made. \<open>ts\<close> is the text \<open>_get_timestamp\<close> returns.
\<close>

record llm_script =
  strategy_call :: llm_outcome
  recommendation_call :: llm_outcome
  story_call :: llm_outcome

definition get_default_analysis :: "ustr \<Rightarrow> pyval" where
  "get_default_analysis ts =
     PDict [(U ''investment_recommendation'',
               PDict [(U ''action'', PStr (U ''HOLD'')),
                      (U ''ai_score'', PNum 5),
                      (U ''reasoning'', PStr (U ''AI analysis not available at this time.'')),
                      (U ''key_catalysts'', PList []),
                      (U ''risk_factors'', PList [])]),
            (U ''ai_metrics'',
               PDict [(U ''ai_revenue_exposure'', PNum 0),
                      (U ''ai_partnerships'', PNum 0),
                      (U ''ai_patents'', PNum 0),
                      (U ''ai_investment_score'', PNum 5)]),
            (U ''ai_story'',
               PDict [(U ''strategy_summary'', PStr (U ''AI analysis not available.'')),
                      (U ''use_cases'', PList []),
                      (U ''opportunities'', PList []),
                      (U ''competitive_advantages'', PList [])]),
            (U ''analysis_timestamp'', PStr ts)]"

definition analysis_body ::
  "(ustr \<Rightarrow> pyval option) \<Rightarrow> pyval \<Rightarrow> pyval \<Rightarrow> llm_script \<Rightarrow> ustr \<Rightarrow> py_exc + pyval" where
  "analysis_body loads ticker company_info llm ts =
     seq (prepare_company_context ticker company_info) (\<lambda>ctx.
     let ai_strategy_analysis = analyze_ai_strategy loads ctx (strategy_call llm);
         investment_recommendation =
           get_investment_recommendation loads ctx ai_strategy_analysis (recommendation_call llm);
         ai_metrics = calculate_ai_metrics ctx ai_strategy_analysis;
         ai_story = generate_ai_story loads ctx ai_strategy_analysis (story_call llm)
     in Inr (PDict [(U ''investment_recommendation'', investment_recommendation),
                    (U ''ai_metrics'', ai_metrics),
                    (U ''ai_story'', ai_story),
                    (U ''analysis_timestamp'', PStr ts)]))"

definition analyze_ai_potential ::
  "(ustr \<Rightarrow> pyval option) \<Rightarrow> pyval \<Rightarrow> pyval \<Rightarrow> llm_script \<Rightarrow> ustr \<Rightarrow> pyval" where
  "analyze_ai_potential loads ticker company_info llm ts =
     catch (analysis_body loads ticker company_info llm ts) (get_default_analysis ts)"

section \<open>401k mode\<close>

definition get_default_401k_analysis :: "ustr \<Rightarrow> pyval" where
  "get_default_401k_analysis ts =
     PDict [(U ''overview'',
               PDict [(U ''match_percentage'', PNum 0),
                      (U ''max_match_salary_percent'', PNum 0),
                      (U ''vesting_period'', PStr (U ''Unknown'')),
                      (U ''roth_available'', PBool False),
                      (U ''company_size'', PStr (U ''Unknown'')),
                      (U ''industry_rating'', PStr (U ''Unknown''))]),
            (U ''recommendation'',
               PDict [(U ''optimization_score'', PNum 5),
                      (U ''primary_advice'', PStr (U ''401K analysis not available at this time.'')),
                      (U ''key_actions'', PList []),
                      (U ''urgency_level'', PStr (U ''medium''))]),
            (U ''contribution_strategy'',
               PDict [(U ''recommended_contribution_percent'', PNum 10),
                      (U ''annual_savings_potential'', PStr (U ''Not calculated'')),
                      (U ''tax_optimization'', PStr (U ''Consult with financial advisor'')),
                      (U ''recommended_actions'',
                         PList [PStr (U ''Contribute enough to get company match'')])]),
            (U ''roth_analysis'',
               PDict [(U ''recommendation'', PStr (U ''Traditional'')),
                      (U ''reasoning'', PStr (U ''Analysis not available'')),
                      (U ''age_considerations'', PStr (U ''Consider your current tax bracket'')),
                      (U ''tax_bracket_impact'', PStr (U ''Consult tax professional''))]),
            (U ''fund_options'',
               PDict [(U ''fund_categories'', PList []),
                      (U ''recommended_funds'', PList []),
                      (U ''expense_ratio_analysis'', PStr (U ''Unknown'')),
                      (U ''diversification_advice'',
                         PStr (U ''Diversify investments across asset classes''))]),
            (U ''additional_benefits'',
               PDict [(U ''other_benefits'', PList []),
                      (U ''financial_wellness_perks'', PList []),
                      (U ''catch_up_contributions'', PStr (U ''Check if available for 50+'')),
                      (U ''loan_provisions'', PStr (U ''Check plan details''))]),
            (U ''analysis_timestamp'', PStr ts)]"

definition default_overview :: pyval where
  "default_overview =
     PDict [(U ''match_percentage'', PNum 0),
            (U ''max_match_salary_percent'', PNum 0),
            (U ''vesting_period'', PStr (U ''Unknown'')),
            (U ''roth_available'', PBool False),
            (U ''company_size'', PStr (U ''Unknown'')),
            (U ''industry_rating'', PStr (U ''Unknown''))]"

definition default_recommendation :: pyval where
  "default_recommendation =
     PDict [(U ''optimization_score'', PNum 5),
            (U ''primary_advice'', PStr (U ''401K analysis temporarily unavailable.'')),
            (U ''key_actions'',
               PList [PStr (U ''Contribute at least enough to get company match''),
                      PStr (U ''Review plan documents'')]),
            (U ''urgency_level'', PStr (U ''medium''))]"

definition default_contribution_strategy :: pyval where
  "default_contribution_strategy =
     PDict [(U ''recommended_contribution_percent'', PNum 10),
            (U ''annual_savings_potential'', PStr (U ''Not calculated'')),
            (U ''tax_optimization'', PStr (U ''Standard tax-deferred benefits apply'')),
            (U ''recommended_actions'',
               PList [PStr (U ''Start with company match''),
                      PStr (U ''Increase contributions annually'')])]"

definition default_roth_analysis :: pyval where
  "default_roth_analysis =
     PDict [(U ''recommendation'', PStr (U ''Traditional'')),
            (U ''reasoning'', PStr (U ''Default recommendation for tax-deferred savings'')),
            (U ''age_considerations'',
               PStr (U ''Younger employees may benefit from Roth options'')),
            (U ''tax_bracket_impact'',
               PStr (U ''Consider current vs expected future tax rates''))]"

definition default_fund_options :: pyval where
  "default_fund_options =
     PDict [(U ''fund_categories'',
               PList [PStr (U ''Target Date Funds''), PStr (U ''Index Funds''),
                      PStr (U ''Bond Funds'')]),
            (U ''recommended_funds'',
               PList [PStr (U ''Low-cost index funds''),
                      PStr (U ''Target-date funds for simplicity'')]),
            (U ''expense_ratio_analysis'',
               PStr (U ''Look for funds with expense ratios under 0.5%'')),
            (U ''diversification_advice'',
               PStr (U ''Mix of stocks, bonds, and international exposure''))]"

definition default_additional_benefits :: pyval where
  "default_additional_benefits =
     PDict [(U ''other_benefits'', PList [PStr (U ''Standard 401k benefits'')]),
            (U ''financial_wellness_perks'', PList [PStr (U ''Online planning tools'')]),
            (U ''catch_up_contributions'', PStr (U ''Available for employees 50 and older'')),
            (U ''loan_provisions'', PStr (U ''Check with HR for loan availability''))]"

definition get_default_401k_benefits :: pyval where
  \<comment> \<open>the six sections of the source's literal, named one by one above\<close>
  "get_default_401k_benefits =
     PDict [(U ''overview'', default_overview),
            (U ''recommendation'', default_recommendation),
            (U ''contribution_strategy'', default_contribution_strategy),
            (U ''roth_analysis'', default_roth_analysis),
            (U ''fund_options'', default_fund_options),
            (U ''additional_benefits'', default_additional_benefits)]"

text \<open>
  \<open>_analyze_401k_benefits\<close>: the prompt takes the company name as plain text and
  cannot fail; the rest is the pattern of the AI-strategy stage.
\<close>

definition benefits_body :: "(ustr \<Rightarrow> pyval option) \<Rightarrow> llm_outcome \<Rightarrow> py_exc + pyval" where
  "benefits_body loads out =
     seq (llm_call out) (\<lambda>resp.
     seq (parse_openai_json loads resp) checked_result)"

definition analyze_401k_benefits :: "(ustr \<Rightarrow> pyval option) \<Rightarrow> llm_outcome \<Rightarrow> pyval" where
  "analyze_401k_benefits loads out = catch (benefits_body loads out) get_default_401k_benefits"

definition company_401k_body ::
  "(ustr \<Rightarrow> pyval option) \<Rightarrow> llm_outcome \<Rightarrow> ustr \<Rightarrow> py_exc + pyval" where
  "company_401k_body loads out ts =
     (let analysis_result = analyze_401k_benefits loads out in
      seq (dict_get analysis_result (U ''overview'') (PDict [])) (\<lambda>v_overview.
      seq (dict_get analysis_result (U ''recommendation'') (PDict [])) (\<lambda>v_recommendation.
      seq (dict_get analysis_result (U ''contribution_strategy'') (PDict [])) (\<lambda>v_strategy.
      seq (dict_get analysis_result (U ''roth_analysis'') (PDict [])) (\<lambda>v_roth.
      seq (dict_get analysis_result (U ''fund_options'') (PDict [])) (\<lambda>v_funds.
      seq (dict_get analysis_result (U ''additional_benefits'') (PDict [])) (\<lambda>v_additional.
      Inr (PDict [(U ''overview'', v_overview),
                  (U ''recommendation'', v_recommendation),
                  (U ''contribution_strategy'', v_strategy),
                  (U ''roth_analysis'', v_roth),
                  (U ''fund_options'', v_funds),
                  (U ''additional_benefits'', v_additional),
                  (U ''analysis_timestamp'', PStr ts)]))))))))"

definition analyze_company_401k ::
  "(ustr \<Rightarrow> pyval option) \<Rightarrow> llm_outcome \<Rightarrow> ustr \<Rightarrow> pyval" where
  "analyze_company_401k loads out ts =
     catch (company_401k_body loads out ts) (get_default_401k_analysis ts)"

section \<open>Reading a result, and the inputs of the examples\<close>

definition field :: "pyval \<Rightarrow> ustr \<Rightarrow> pyval option" where
  \<comment> \<open>the value under a key of a dictionary, \<open>None\<close> when the key is missing\<close>
  "field d k = (case d of PDict kvs \<Rightarrow> map_of kvs k | _ \<Rightarrow> None)"

definition keys :: "pyval \<Rightarrow> ustr list" where
  "keys d = (case d of PDict kvs \<Rightarrow> map fst kvs | _ \<Rightarrow> [])"

definition field2 :: "pyval \<Rightarrow> ustr \<Rightarrow> ustr \<Rightarrow> pyval option" where
  \<comment> \<open>\<open>d[k1][k2]\<close>, \<open>None\<close> when either key is missing\<close>
  "field2 d k1 k2 = (case field d k1 of Some v \<Rightarrow> field v k2 | None \<Rightarrow> None)"

definition subkeys :: "pyval \<Rightarrow> ustr \<Rightarrow> ustr list" where
  "subkeys d k = (case field d k of Some v \<Rightarrow> keys v | None \<Rightarrow> [])"

definition result_keys :: "ustr list" where
  "result_keys =
     [U ''investment_recommendation'', U ''ai_metrics'', U ''ai_story'', U ''analysis_timestamp'']"

definition recommendation_keys :: "ustr list" where
  "recommendation_keys =
     [U ''action'', U ''ai_score'', U ''reasoning'', U ''key_catalysts'', U ''risk_factors'']"

definition metric_keys :: "ustr list" where
  "metric_keys =
     [U ''ai_revenue_exposure'', U ''ai_partnerships'', U ''ai_patents'', U ''ai_investment_score'']"

definition story_keys :: "ustr list" where
  "story_keys =
     [U ''strategy_summary'', U ''use_cases'', U ''opportunities'', U ''competitive_advantages'']"

definition section_names :: "ustr list" where
  "section_names =
     [U ''overview'', U ''recommendation'', U ''contribution_strategy'', U ''roth_analysis'',
      U ''fund_options'', U ''additional_benefits'']"




text \<open>
  \<open>json.loads\<close> on the four bodies the examples use; any other body counts as
  undecodable here.
\<close>

definition loads_sample :: "ustr \<Rightarrow> pyval option" where
  \<open>loads_sample =
     map_of
       [(U ''{}'', PDict []),
        (U ''{"action": "BUY"}'', PDict [(U ''action'', PStr (U ''BUY''))]),
        (U ''{"overview": {"match_percentage": 50}}'',
           PDict [(U ''overview'', PDict [(U ''match_percentage'', PNum 50)])]),
        (U ''{"ai_maturity_score": 8}'', PDict [(U ''ai_maturity_score'', PNum 8)])]\<close>

definition text_response :: "ustr \<Rightarrow> response" where
  \<comment> \<open>a response of one choice whose message has the given body and no parsed payload\<close>
  "text_response body = \<lparr>choices = [\<lparr>parsed = PNone, content = PStr body\<rparr>]\<rparr>"

definition sample_info :: pyval where
  "sample_info =
     PDict [(U ''symbol'', PStr (U ''MSFT'')),
            (U ''longName'', PStr (U ''Microsoft Corporation'')),
            (U ''sector'', PStr (U ''Technology'')),
            (U ''industry'', PStr (U ''Software - Infrastructure'')),
            (U ''marketCap'', PNum 3000000000000),
            (U ''fullTimeEmployees'', PNum 228000)]"

definition sample_context :: company_context where
  "sample_context =
     \<lparr>symbol = PStr (U ''MSFT''), name = PStr (U ''Microsoft Corporation''),
      sector = PStr (U ''Technology''), industry = PStr (U ''Software - Infrastructure''),
      business_summary = PStr [], market_cap = PNum 3000000000000,
      employees = PNum 228000, revenue = PNum 0, website = PStr [],
      country = PStr (U ''Unknown'')\<rparr>"

section \<open>Basic facts\<close>

lemma U_eq_iff [simp]: "U a = U b \<longleftrightarrow> a = b"
proof -
  have "inj (of_char :: char \<Rightarrow> nat)" by (simp add: inj_on_def)
  then show ?thesis unfolding U_def by (rule inj_map_eq_map)
qed

lemma U_Nil [simp]: "U [] = []" "U s = [] \<longleftrightarrow> s = []" "[] = U s \<longleftrightarrow> s = []"
  by (auto simp add: U_def)

lemma seq_simps [simp]: "seq (Inl e) f = Inl e" "seq (Inr x) f = f x"
  by (simp_all add: seq_def)

lemma catch_simps [simp]: "catch (Inl e) d = d" "catch (Inr x) d = x"
  by (simp_all add: catch_def)

lemma ascii_notin: "is_ascii s \<Longrightarrow> 128 \<le> u \<Longrightarrow> u \<notin> set s"
  by (auto simp add: is_ascii_def list_all_iff)

section \<open>The sanitizer is idempotent and its output is ASCII\<close>

lemma hex_digit_ascii: "d < 16 \<Longrightarrow> hex_digit d < 128"
  by (simp add: hex_digit_def)

lemma hex_fixed_ascii: "is_ascii (hex_fixed w n)"
  by (simp add: is_ascii_def hex_fixed_def list_all_iff hex_digit_ascii)

lemma backslash_escape_ascii: "is_ascii (backslash_escape c)"
  using hex_fixed_ascii by (simp add: backslash_escape_def is_ascii_def)

lemma encode_ascii: "is_ascii (encode_ascii_backslashreplace s)"
  using backslash_escape_ascii
  by (induction s) (simp_all add: encode_ascii_backslashreplace_def is_ascii_def)

lemma encode_id: "is_ascii s \<Longrightarrow> encode_ascii_backslashreplace s = s"
  by (induction s)
    (simp_all add: encode_ascii_backslashreplace_def is_ascii_def backslash_escape_def)

lemma replace_char_id: "u \<notin> set s \<Longrightarrow> replace_char u a s = s"
  by (induction s) (auto simp add: replace_char_def)

lemma apply_replacements_id: "is_ascii s \<Longrightarrow> apply_replacements s = s"
  by (simp add: apply_replacements_def replacements_def replace_char_id ascii_notin)

lemma is_ascii_Nil: "is_ascii []"
  by (simp add: is_ascii_def)

lemma sanitize_ascii: "is_ascii (sanitize_text nfkc x)"
  by (simp add: sanitize_text_def encode_ascii is_ascii_Nil)

lemma nfkc_fragment_ascii: "is_ascii s \<Longrightarrow> nfkc_fragment s = s"
  by (induction s) (auto simp add: nfkc_fragment_def is_ascii_def)

text \<open>
  Claim C1. For every input \<open>x\<close>, sanitizing the sanitized text gives the sanitized
  text again, and the sanitized text holds ASCII code points only. NFKC is the
  library's; what is used of it is that it leaves an ASCII string as it is.
\<close>

theorem sanitize_idempotent_ascii:
  assumes nfkc_ascii: "\<And>s. is_ascii s \<Longrightarrow> nfkc s = s"
  shows "sanitize_text nfkc (TStr (sanitize_text nfkc x)) = sanitize_text nfkc x
         \<and> is_ascii (sanitize_text nfkc x)"
proof -
  let ?r = "sanitize_text nfkc x"
  have a: "is_ascii ?r" by (rule sanitize_ascii)
  have "sanitize_text nfkc (TStr ?r) = ?r"
  proof (cases "?r = []")
    case True
    then show ?thesis by (simp add: sanitize_text_def)
  next
    case False
    then have "sanitize_text nfkc (TStr ?r)
               = encode_ascii_backslashreplace (apply_replacements (nfkc ?r))"
      by (simp add: sanitize_text_def)
    also have "\<dots> = ?r"
      using a by (simp add: nfkc_ascii apply_replacements_id encode_id)
    finally show ?thesis .
  qed
  with a show ?thesis by simp
qed

text \<open>
  The input of the witness mixes scripts: \<open>s\<close>, \<open>k\<close>, an em dash, two CJK
  ideographs, \<open>e\<close> with acute accent, an ellipsis and an emoji.
\<close>

theorem sanitize_idempotent_ascii_witness:
  "sanitize_text nfkc_fragment
     (TStr (sanitize_text nfkc_fragment
        (TStr [0x73, 0x6B, 0x2014, 0x65E5, 0x672C, 0xE9, 0x2026, 0x1F600])))
   = sanitize_text nfkc_fragment (TStr [0x73, 0x6B, 0x2014, 0x65E5, 0x672C, 0xE9, 0x2026, 0x1F600])
   \<and> is_ascii (sanitize_text nfkc_fragment
        (TStr [0x73, 0x6B, 0x2014, 0x65E5, 0x672C, 0xE9, 0x2026, 0x1F600]))"
  using sanitize_idempotent_ascii
    [of nfkc_fragment "TStr [0x73, 0x6B, 0x2014, 0x65E5, 0x672C, 0xE9, 0x2026, 0x1F600]",
     OF nfkc_fragment_ascii]
  by simp

text \<open>
  Claim C10. For every falsy input (\<open>None\<close>, the empty text, zero, \<open>False\<close>) the
  sanitizer returns the empty text, not the text of the input.
\<close>

theorem sanitize_falsy: "\<not> truthy x \<Longrightarrow> sanitize_text nfkc x = []"
  by (simp add: sanitize_text_def)

theorem sanitize_falsy_witness:
  "sanitize_text nfkc_fragment TNone = [] \<and> sanitize_text nfkc_fragment (TStr []) = []
   \<and> sanitize_text nfkc_fragment (TInt 0) = []"
  using sanitize_falsy [of TNone nfkc_fragment] sanitize_falsy [of "TStr []" nfkc_fragment]
        sanitize_falsy [of "TInt 0" nfkc_fragment]
  by simp

section \<open>The credential check\<close>

text \<open>
  Claim C2. At construction, a credential with an em dash or an en dash raises the
  dash error; a credential with other non-ASCII characters only raises the generic
  non-ASCII error; a non-empty ASCII credential constructs the analyzer; a missing
  credential (the variable unset, or set to the empty text) raises the "not set"
  error.
\<close>

theorem init_credential:
  "(em_dash \<in> set k \<or> en_dash \<in> set k \<longrightarrow> init (Some k) = Inl KeyHasDash)
   \<and> (\<not> is_ascii k \<and> em_dash \<notin> set k \<and> en_dash \<notin> set k \<longrightarrow> init (Some k) = Inl KeyNonAscii)
   \<and> (k \<noteq> [] \<and> is_ascii k \<longrightarrow> init (Some k) = Inr \<lparr>api_key = k, model = U ''gpt-5''\<rparr>)
   \<and> init None = Inl KeyNotSet \<and> init (Some []) = Inl KeyNotSet"
proof -
  have dash: "\<not> is_ascii k \<and> k \<noteq> []" if "em_dash \<in> set k \<or> en_dash \<in> set k"
  proof -
    have "128 \<le> em_dash" "128 \<le> en_dash" by (simp_all add: em_dash_def en_dash_def)
    with that ascii_notin [of k] show ?thesis by auto
  qed
  have nonascii: "k \<noteq> []" if "\<not> is_ascii k"
    using that by (auto simp add: is_ascii_def)
  show ?thesis
    using dash nonascii by (auto simp add: init_def)
qed

text \<open>
  The three credentials of the specification: \<open>sk-abc\<close>, an em dash, \<open>def\<close>; \<open>sk-\<close>
  and three CJK ideographs; \<open>sk-valid123\<close>.
\<close>

theorem init_credential_witness:
  "init (Some (U ''sk-abc'' @ [0x2014] @ U ''def'')) = Inl KeyHasDash
   \<and> init (Some (U ''sk-'' @ [0x65E5, 0x672C, 0x8A9E])) = Inl KeyNonAscii
   \<and> init (Some (U ''sk-valid123'')) = Inr \<lparr>api_key = U ''sk-valid123'', model = U ''gpt-5''\<rparr>
   \<and> init None = Inl KeyNotSet"
  using init_credential [of "U ''sk-abc'' @ [0x2014] @ U ''def''"]
        init_credential [of "U ''sk-'' @ [0x65E5, 0x672C, 0x8A9E]"]
        init_credential [of "U ''sk-valid123''"]
  by (simp add: em_dash_def en_dash_def is_ascii_def U_def)

section \<open>The response parser\<close>

lemma strip_Cons: "\<not> py_isspace c \<Longrightarrow> strip (c # u) \<noteq> []"
  by (simp add: strip_def dropWhile_eq_Nil_conv)

lemma strip_U_Cons: "\<not> py_isspace (of_char c) \<Longrightarrow> strip (U (c # r)) \<noteq> []"
  by (simp add: U_def strip_Cons)





section \<open>The local metrics\<close>










section \<open>The stages of the stock-mode pipeline\<close>


lemma raising_call: "catch (seq p (\<lambda>_. seq (llm_call Raises) f)) d = d"
  by (cases p) (simp_all add: llm_call_def)

lemma strategy_raises: "analyze_ai_strategy loads ctx Raises = strategy_fallback"
  by (simp add: analyze_ai_strategy_def strategy_body_def raising_call)

lemma recommendation_raises:
  "get_investment_recommendation loads ctx strat Raises = recommendation_fallback"
  by (simp add: get_investment_recommendation_def recommendation_body_def raising_call)

lemma story_raises: "generate_ai_story loads ctx strat Raises = story_fallback"
  by (simp add: generate_ai_story_def story_body_def raising_call)

lemma analysis_cases:
  "(\<exists>e. prepare_company_context ticker info = Inl e
        \<and> analyze_ai_potential loads ticker info llm ts = get_default_analysis ts)
   \<or> (\<exists>ctx. prepare_company_context ticker info = Inr ctx
        \<and> analyze_ai_potential loads ticker info llm ts =
            PDict [(U ''investment_recommendation'',
                      get_investment_recommendation loads ctx
                        (analyze_ai_strategy loads ctx (strategy_call llm)) (recommendation_call llm)),
                   (U ''ai_metrics'',
                      calculate_ai_metrics ctx (analyze_ai_strategy loads ctx (strategy_call llm))),
                   (U ''ai_story'',
                      generate_ai_story loads ctx
                        (analyze_ai_strategy loads ctx (strategy_call llm)) (story_call llm)),
                   (U ''analysis_timestamp'', PStr ts)])"
  by (cases "prepare_company_context ticker info")
    (simp_all add: analyze_ai_potential_def analysis_body_def Let_def)

lemma analysis_keys: "keys (analyze_ai_potential loads ticker info llm ts) = result_keys"
  using analysis_cases [of ticker info loads llm ts]
  by (auto simp add: keys_def result_keys_def get_default_analysis_def)

lemma py_round_le: "q \<le> of_int N \<Longrightarrow> py_round q \<le> N"
proof -
  assume a: "q \<le> of_int N"
  then have f: "\<lfloor>q\<rfloor> \<le> N" by (simp add: floor_le_iff) 
  show ?thesis
  proof (cases "\<lfloor>q\<rfloor> = N")
    case True
    then have "q - of_int \<lfloor>q\<rfloor> \<le> 0" using a by simp
    then show ?thesis using True by (simp add: py_round_def Let_def)
  next
    case False
    with f have "\<lfloor>q\<rfloor> + 1 \<le> N" by simp
    then show ?thesis using f by (simp add: py_round_def Let_def)
  qed
qed

lemma round1_le_100: "q \<le> 100 \<Longrightarrow> round1 q \<le> 100"
proof -
  assume "q \<le> 100"
  then have "q * 10 \<le> of_int 1000" by simp
  then have "py_round (q * 10) \<le> 1000" by (rule py_round_le)
  then have "(of_int (py_round (q * 10)) :: rat) \<le> 1000"
    by (metis of_int_le_iff of_int_numeral)
  then show ?thesis by (simp add: round1_def)
qed

lemma metrics_shape:
  "\<exists>e p t sc. calculate_ai_metrics ctx strat =
       PDict [(U ''ai_revenue_exposure'', PNum e), (U ''ai_partnerships'', PNum p),
              (U ''ai_patents'', PNum t), (U ''ai_investment_score'', sc)]
     \<and> e \<le> 100 \<and> 0 \<le> p \<and> 0 \<le> t"
proof (cases "metrics_body ctx strat")
  case (Inl e)
  then show ?thesis by (simp add: calculate_ai_metrics_def metrics_fallback_def)
next
  case (Inr v)
  then show ?thesis
    by (auto simp add: calculate_ai_metrics_def metrics_body_def seq_def Let_def round1_le_100
        split: sum.splits)
qed

lemma metrics_score_fallback:
  "field (calculate_ai_metrics ctx strategy_fallback) (U ''ai_investment_score'') = Some (PNum 5)"
  by (cases "base_exposure (sector ctx)")
    (simp_all add: calculate_ai_metrics_def metrics_body_def strategy_fallback_def dict_get_def
      metrics_fallback_def field_def Let_def)


lemmas eval_defs =
  analyze_ai_potential_def analysis_body_def prepare_company_context_def
  analyze_ai_strategy_def strategy_body_def strategy_prompt_def checked_result_def
  get_investment_recommendation_def recommendation_body_def recommendation_prompt_def
  calculate_ai_metrics_def metrics_body_def
  generate_ai_story_def story_body_def story_prompt_def
  analyze_company_401k_def company_401k_body_def analyze_401k_benefits_def benefits_body_def
  llm_call_def parse_openai_json_def text_response_def loads_sample_def dict_get_def
  strategy_fallback_def recommendation_fallback_def story_fallback_def metrics_fallback_def
  sample_info_def sample_context_def field_def field2_def keys_def subkeys_def Let_def

lemma strip_brace: "strip (U (CHR ''{'' # r)) \<noteq> []"
  by (rule strip_U_Cons) (simp add: py_isspace_def)

lemma strip_not_json: "strip (U ''not json'') \<noteq> []"
  by (rule strip_U_Cons) (simp add: py_isspace_def)




section \<open>The assembled stock-mode result\<close>


lemma sample_prepare:
  "prepare_company_context (PStr (U ''MSFT'')) sample_info = Inr sample_context"
  by (simp add: prepare_company_context_def sample_info_def sample_context_def dict_get_def)

text \<open>
  Claim C3 as stated fails when only the AI-strategy call raises: the
  recommendation stage makes its own call, and when that call answers
  \<open>{"action": "BUY"}\<close> the action of the result is \<open>BUY\<close>, not \<open>HOLD\<close>.
\<close>

theorem strategy_raises_action_counterexample:
  \<open>field2
     (analyze_ai_potential loads_sample (PStr (U ''MSFT'')) sample_info
        \<lparr>strategy_call = Raises,
         recommendation_call = Returns (text_response (U ''{"action": "BUY"}'')),
         story_call = Raises\<rparr>
        (U ''2025-01-01T09:00:00''))
     (U ''investment_recommendation'') (U ''action'')
   = Some (PStr (U ''BUY''))\<close>
  by (simp add: eval_defs strip_brace)

text \<open>
  Claim C3, as amended. If the remote call of the AI-strategy stage raises, the
  orchestrator still returns a result with the four top-level keys whose
  \<open>ai_metrics.ai_investment_score\<close> is 5; its
  \<open>investment_recommendation.action\<close> is \<open>HOLD\<close> when the remote call of the
  recommendation stage raises as well.
\<close>

theorem strategy_raises_result:
  assumes "strategy_call llm = Raises"
  shows "keys (analyze_ai_potential loads ticker info llm ts) = result_keys
     \<and> field2 (analyze_ai_potential loads ticker info llm ts)
          (U ''ai_metrics'') (U ''ai_investment_score'') = Some (PNum 5)
     \<and> (recommendation_call llm = Raises \<longrightarrow>
          field2 (analyze_ai_potential loads ticker info llm ts)
            (U ''investment_recommendation'') (U ''action'') = Some (PStr (U ''HOLD'')))"
proof -
  let ?R = "analyze_ai_potential loads ticker info llm ts"
  have k: "keys ?R = result_keys" by (rule analysis_keys)
  from analysis_cases [of ticker info loads llm ts]
  have "field2 ?R (U ''ai_metrics'') (U ''ai_investment_score'') = Some (PNum 5)
     \<and> (recommendation_call llm = Raises \<longrightarrow>
          field2 ?R (U ''investment_recommendation'') (U ''action'') = Some (PStr (U ''HOLD'')))"
  proof (elim disjE exE conjE)
    fix e
    assume "?R = get_default_analysis ts"
    then show ?thesis by (simp add: get_default_analysis_def field2_def field_def)
  next
    fix ctx
    assume r: "?R = PDict [(U ''investment_recommendation'',
                      get_investment_recommendation loads ctx
                        (analyze_ai_strategy loads ctx (strategy_call llm)) (recommendation_call llm)),
                   (U ''ai_metrics'',
                      calculate_ai_metrics ctx (analyze_ai_strategy loads ctx (strategy_call llm))),
                   (U ''ai_story'',
                      generate_ai_story loads ctx
                        (analyze_ai_strategy loads ctx (strategy_call llm)) (story_call llm)),
                   (U ''analysis_timestamp'', PStr ts)]"
    have m: "field2 ?R (U ''ai_metrics'') (U ''ai_investment_score'') = Some (PNum 5)"
      using metrics_score_fallback [of ctx]
      by (simp add: r assms strategy_raises field2_def field_def)
    have a: "field2 ?R (U ''investment_recommendation'') (U ''action'') = Some (PStr (U ''HOLD''))"
      if "recommendation_call llm = Raises"
      by (simp add: r that recommendation_raises recommendation_fallback_def field2_def field_def)
    from m a show ?thesis by simp
  qed
  with k show ?thesis by simp
qed

theorem strategy_raises_result_witness:
  "keys (analyze_ai_potential loads_sample (PStr (U ''MSFT'')) sample_info
           \<lparr>strategy_call = Raises, recommendation_call = Raises, story_call = Raises\<rparr>
           (U ''2025-01-01T09:00:00'')) = result_keys
   \<and> field2 (analyze_ai_potential loads_sample (PStr (U ''MSFT'')) sample_info
           \<lparr>strategy_call = Raises, recommendation_call = Raises, story_call = Raises\<rparr>
           (U ''2025-01-01T09:00:00''))
        (U ''ai_metrics'') (U ''ai_investment_score'') = Some (PNum 5)
   \<and> field2 (analyze_ai_potential loads_sample (PStr (U ''MSFT'')) sample_info
           \<lparr>strategy_call = Raises, recommendation_call = Raises, story_call = Raises\<rparr>
           (U ''2025-01-01T09:00:00''))
        (U ''investment_recommendation'') (U ''action'') = Some (PStr (U ''HOLD''))"
  using strategy_raises_result [where loads = loads_sample and ticker = "PStr (U ''MSFT'')"
      and info = sample_info
      and llm = "\<lparr>strategy_call = Raises, recommendation_call = Raises, story_call = Raises\<rparr>"
      and ts = "U ''2025-01-01T09:00:00''"]
  by simp


text \<open>
  Claim C9 as stated fails when the recommendation call answers the empty object
  \<open>{}\<close>: the stage returns the parsed mapping as it is, so the
  \<open>investment_recommendation\<close> of the result is empty and its \<open>action\<close> key is
  missing.
\<close>

theorem missing_key_counterexample:
  \<open>field
     (analyze_ai_potential loads_sample (PStr (U ''MSFT'')) sample_info
        \<lparr>strategy_call = Returns (text_response (U ''{"ai_maturity_score": 8}'')),
         recommendation_call = Returns (text_response (U ''{}'')),
         story_call = Returns (text_response (U ''{}''))\<rparr>
        (U ''2025-01-01T09:00:00''))
     (U ''investment_recommendation'') = Some (PDict [])
   \<and> field2
     (analyze_ai_potential loads_sample (PStr (U ''MSFT'')) sample_info
        \<lparr>strategy_call = Returns (text_response (U ''{"ai_maturity_score": 8}'')),
         recommendation_call = Returns (text_response (U ''{}'')),
         story_call = Returns (text_response (U ''{}''))\<rparr>
        (U ''2025-01-01T09:00:00''))
     (U ''investment_recommendation'') (U ''action'') = None\<close>
  by (simp add: eval_defs strip_brace)

text \<open>
  Claim C9, as amended. For every invocation and every behaviour of the remote
  model, the result has its four top-level keys and \<open>ai_metrics\<close> has its four
  fields, with \<open>ai_revenue_exposure\<close> at most 100 and \<open>ai_partnerships\<close> and
  \<open>ai_patents\<close> not negative; when the remote call of their stage raises,
  \<open>investment_recommendation\<close> and \<open>ai_story\<close> have all their fields, being the
  static fallback of the stage (or the result is the whole-result default).
\<close>

theorem result_fields:
  "keys (analyze_ai_potential loads ticker info llm ts) = result_keys
   \<and> subkeys (analyze_ai_potential loads ticker info llm ts) (U ''ai_metrics'') = metric_keys
   \<and> (recommendation_call llm = Raises \<longrightarrow>
        subkeys (analyze_ai_potential loads ticker info llm ts) (U ''investment_recommendation'')
          = recommendation_keys
        \<and> (field (analyze_ai_potential loads ticker info llm ts) (U ''investment_recommendation'')
              = Some recommendation_fallback
            \<or> analyze_ai_potential loads ticker info llm ts = get_default_analysis ts))
   \<and> (story_call llm = Raises \<longrightarrow>
        subkeys (analyze_ai_potential loads ticker info llm ts) (U ''ai_story'') = story_keys
        \<and> (field (analyze_ai_potential loads ticker info llm ts) (U ''ai_story'')
              = Some story_fallback
            \<or> analyze_ai_potential loads ticker info llm ts = get_default_analysis ts))
   \<and> (\<exists>e p t.
        field2 (analyze_ai_potential loads ticker info llm ts)
          (U ''ai_metrics'') (U ''ai_revenue_exposure'') = Some (PNum e) \<and> e \<le> 100
        \<and> field2 (analyze_ai_potential loads ticker info llm ts)
          (U ''ai_metrics'') (U ''ai_partnerships'') = Some (PNum p) \<and> 0 \<le> p
        \<and> field2 (analyze_ai_potential loads ticker info llm ts)
          (U ''ai_metrics'') (U ''ai_patents'') = Some (PNum t) \<and> 0 \<le> t)"
proof -
  let ?R = "analyze_ai_potential loads ticker info llm ts"
  let ?P = "subkeys ?R (U ''ai_metrics'') = metric_keys
   \<and> (recommendation_call llm = Raises \<longrightarrow>
        subkeys ?R (U ''investment_recommendation'') = recommendation_keys
        \<and> (field ?R (U ''investment_recommendation'') = Some recommendation_fallback
            \<or> ?R = get_default_analysis ts))
   \<and> (story_call llm = Raises \<longrightarrow>
        subkeys ?R (U ''ai_story'') = story_keys
        \<and> (field ?R (U ''ai_story'') = Some story_fallback \<or> ?R = get_default_analysis ts))
   \<and> (\<exists>e p t.
        field2 ?R (U ''ai_metrics'') (U ''ai_revenue_exposure'') = Some (PNum e) \<and> e \<le> 100
        \<and> field2 ?R (U ''ai_metrics'') (U ''ai_partnerships'') = Some (PNum p) \<and> 0 \<le> p
        \<and> field2 ?R (U ''ai_metrics'') (U ''ai_patents'') = Some (PNum t) \<and> 0 \<le> t)"
  from analysis_cases [of ticker info loads llm ts] have ?P
  proof (elim disjE exE conjE)
    fix e
    assume d: "?R = get_default_analysis ts"
    have "subkeys (get_default_analysis ts) (U ''ai_metrics'') = metric_keys"
      "subkeys (get_default_analysis ts) (U ''investment_recommendation'') = recommendation_keys"
      "subkeys (get_default_analysis ts) (U ''ai_story'') = story_keys"
      "field2 (get_default_analysis ts) (U ''ai_metrics'') (U ''ai_revenue_exposure'')
         = Some (PNum 0)"
      "field2 (get_default_analysis ts) (U ''ai_metrics'') (U ''ai_partnerships'')
         = Some (PNum 0)"
      "field2 (get_default_analysis ts) (U ''ai_metrics'') (U ''ai_patents'') = Some (PNum 0)"
      by (simp_all add: get_default_analysis_def subkeys_def field2_def field_def keys_def
          metric_keys_def recommendation_keys_def story_keys_def)
    with d show ?P by simp
  next
    fix ctx
    let ?s = "analyze_ai_strategy loads ctx (strategy_call llm)"
    assume r: "?R = PDict [(U ''investment_recommendation'',
                      get_investment_recommendation loads ctx ?s (recommendation_call llm)),
                   (U ''ai_metrics'', calculate_ai_metrics ctx ?s),
                   (U ''ai_story'', generate_ai_story loads ctx ?s (story_call llm)),
                   (U ''analysis_timestamp'', PStr ts)]"
    from metrics_shape [of ctx ?s] obtain e p t sc where
      m: "calculate_ai_metrics ctx ?s =
            PDict [(U ''ai_revenue_exposure'', PNum e), (U ''ai_partnerships'', PNum p),
                   (U ''ai_patents'', PNum t), (U ''ai_investment_score'', sc)]"
      and b: "e \<le> 100" "0 \<le> p" "0 \<le> t"
      by blast
    have 1: "subkeys ?R (U ''ai_metrics'') = metric_keys"
      by (simp add: r m subkeys_def field_def keys_def metric_keys_def)
    have 2: "subkeys ?R (U ''investment_recommendation'') = recommendation_keys
             \<and> field ?R (U ''investment_recommendation'') = Some recommendation_fallback"
      if "recommendation_call llm = Raises"
      by (simp add: r that recommendation_raises subkeys_def field_def)
        (simp add: recommendation_fallback_def keys_def recommendation_keys_def)
    have 3: "subkeys ?R (U ''ai_story'') = story_keys
             \<and> field ?R (U ''ai_story'') = Some story_fallback"
      if "story_call llm = Raises"
      by (simp add: r that story_raises subkeys_def field_def)
        (simp add: story_fallback_def keys_def story_keys_def)
    have 4: "field2 ?R (U ''ai_metrics'') (U ''ai_revenue_exposure'') = Some (PNum e)"
      "field2 ?R (U ''ai_metrics'') (U ''ai_partnerships'') = Some (PNum p)"
      "field2 ?R (U ''ai_metrics'') (U ''ai_patents'') = Some (PNum t)"
      by (simp_all add: r m field2_def field_def)
    from 1 2 3 4 b show ?P by blast
  qed
  with analysis_keys [of loads ticker info llm ts] show ?thesis by simp
qed

theorem result_fields_witness:
  "field (analyze_ai_potential loads_sample (PStr (U ''MSFT'')) sample_info
           \<lparr>strategy_call = Returns (text_response (U ''not json'')),
            recommendation_call = Raises, story_call = Raises\<rparr>
           (U ''2025-01-01T09:00:00'')) (U ''investment_recommendation'')
     = Some recommendation_fallback
   \<and> field (analyze_ai_potential loads_sample (PStr (U ''MSFT'')) sample_info
           \<lparr>strategy_call = Returns (text_response (U ''not json'')),
            recommendation_call = Raises, story_call = Raises\<rparr>
           (U ''2025-01-01T09:00:00'')) (U ''ai_story'') = Some story_fallback
   \<and> subkeys (analyze_ai_potential loads_sample (PStr (U ''MSFT'')) sample_info
           \<lparr>strategy_call = Returns (text_response (U ''not json'')),
            recommendation_call = Raises, story_call = Raises\<rparr>
           (U ''2025-01-01T09:00:00'')) (U ''ai_metrics'') = metric_keys"
proof -
  have "analyze_ai_potential loads_sample (PStr (U ''MSFT'')) sample_info
           \<lparr>strategy_call = Returns (text_response (U ''not json'')),
            recommendation_call = Raises, story_call = Raises\<rparr>
           (U ''2025-01-01T09:00:00'') \<noteq> get_default_analysis (U ''2025-01-01T09:00:00'')"
    by (simp add: eval_defs strip_not_json get_default_analysis_def)
  with result_fields [where loads = loads_sample and ticker = "PStr (U ''MSFT'')"
      and info = sample_info
      and llm = "\<lparr>strategy_call = Returns (text_response (U ''not json'')),
                   recommendation_call = Raises, story_call = Raises\<rparr>"
      and ts = "U ''2025-01-01T09:00:00''"]
  show ?thesis by simp
qed

section \<open>401k mode: sections and defaults\<close>

lemma benefits_raises: "analyze_401k_benefits loads Raises = get_default_401k_benefits"
  by (simp add: analyze_401k_benefits_def benefits_body_def llm_call_def)

lemma benefits_mapping:
  "parse_openai_json loads r = Inr (PDict kvs) \<Longrightarrow> kvs \<noteq> [] \<Longrightarrow>
     analyze_401k_benefits loads (Returns r) = PDict kvs"
  by (simp add: analyze_401k_benefits_def benefits_body_def llm_call_def checked_result_def)

lemma benefits_empty:
  "parse_openai_json loads r = Inr v \<Longrightarrow> \<not> py_truthy v \<Longrightarrow>
     analyze_401k_benefits loads (Returns r) = PDict []"
  by (simp add: analyze_401k_benefits_def benefits_body_def llm_call_def checked_result_def)

lemma company_401k_of_mapping:
  "analyze_401k_benefits loads out = PDict kvs \<Longrightarrow>
     analyze_company_401k loads out ts =
       PDict [(U ''overview'', case map_of kvs (U ''overview'') of Some v \<Rightarrow> v | None \<Rightarrow> PDict []),
              (U ''recommendation'',
                 case map_of kvs (U ''recommendation'') of Some v \<Rightarrow> v | None \<Rightarrow> PDict []),
              (U ''contribution_strategy'',
                 case map_of kvs (U ''contribution_strategy'') of Some v \<Rightarrow> v | None \<Rightarrow> PDict []),
              (U ''roth_analysis'',
                 case map_of kvs (U ''roth_analysis'') of Some v \<Rightarrow> v | None \<Rightarrow> PDict []),
              (U ''fund_options'',
                 case map_of kvs (U ''fund_options'') of Some v \<Rightarrow> v | None \<Rightarrow> PDict []),
              (U ''additional_benefits'',
                 case map_of kvs (U ''additional_benefits'') of Some v \<Rightarrow> v | None \<Rightarrow> PDict []),
              (U ''analysis_timestamp'', PStr ts)]"
  by (simp add: analyze_company_401k_def company_401k_body_def dict_get_def Let_def)

text \<open>
  Claim C4 as stated fails for a response that has only the \<open>overview\<close> section:
  the \<open>roth_analysis\<close> of the result is the empty mapping, which is neither of the
  two static default substructures.
\<close>

theorem roth_default_counterexample:
  \<open>field
     (analyze_company_401k loads_sample
        (Returns (text_response (U ''{"overview": {"match_percentage": 50}}'')))
        (U ''2025-01-01T09:00:00''))
     (U ''roth_analysis'') = Some (PDict [])
   \<and> PDict [] \<noteq> default_roth_analysis
   \<and> Some (PDict []) \<noteq> field (get_default_401k_analysis (U ''2025-01-01T09:00:00''))
        (U ''roth_analysis'')\<close>
  by (simp add: eval_defs strip_brace default_roth_analysis_def get_default_401k_analysis_def)

text \<open>
  Claim C4, as amended. For a non-empty parsed mapping, each of the six sections
  is the value the mapping has for it, or the empty mapping when the mapping has
  none; when the remote call raises the result is the six static default sections
  and the timestamp; when the parse is empty the six sections are empty mappings.
\<close>

theorem company_401k_sections:
  "(parse_openai_json loads r = Inr (PDict kvs) \<and> kvs \<noteq> [] \<and> k \<in> set section_names \<longrightarrow>
      field (analyze_company_401k loads (Returns r) ts) k
        = Some (case map_of kvs k of Some v \<Rightarrow> v | None \<Rightarrow> PDict []))
   \<and> analyze_company_401k loads Raises ts =
        PDict [(U ''overview'', default_overview),
               (U ''recommendation'', default_recommendation),
               (U ''contribution_strategy'', default_contribution_strategy),
               (U ''roth_analysis'', default_roth_analysis),
               (U ''fund_options'', default_fund_options),
               (U ''additional_benefits'', default_additional_benefits),
               (U ''analysis_timestamp'', PStr ts)]
   \<and> (parse_openai_json loads r = Inr v \<and> \<not> py_truthy v \<longrightarrow>
        analyze_company_401k loads (Returns r) ts =
          PDict [(U ''overview'', PDict []),
                 (U ''recommendation'', PDict []),
                 (U ''contribution_strategy'', PDict []),
                 (U ''roth_analysis'', PDict []),
                 (U ''fund_options'', PDict []),
                 (U ''additional_benefits'', PDict []),
                 (U ''analysis_timestamp'', PStr ts)])"
proof -
  have a: "field (analyze_company_401k loads (Returns r) ts) k
        = Some (case map_of kvs k of Some v \<Rightarrow> v | None \<Rightarrow> PDict [])"
    if "parse_openai_json loads r = Inr (PDict kvs)" "kvs \<noteq> []" "k \<in> set section_names"
    using that(3) company_401k_of_mapping [OF benefits_mapping [OF that(1,2)], of ts]
    by (auto simp add: section_names_def field_def)
  have b: "analyze_company_401k loads Raises ts =
        PDict [(U ''overview'', default_overview),
               (U ''recommendation'', default_recommendation),
               (U ''contribution_strategy'', default_contribution_strategy),
               (U ''roth_analysis'', default_roth_analysis),
               (U ''fund_options'', default_fund_options),
               (U ''additional_benefits'', default_additional_benefits),
               (U ''analysis_timestamp'', PStr ts)]"
    using company_401k_of_mapping [of loads Raises _ ts]
    by (simp add: benefits_raises get_default_401k_benefits_def)
  have c: "analyze_company_401k loads (Returns r) ts =
          PDict [(U ''overview'', PDict []),
                 (U ''recommendation'', PDict []),
                 (U ''contribution_strategy'', PDict []),
                 (U ''roth_analysis'', PDict []),
                 (U ''fund_options'', PDict []),
                 (U ''additional_benefits'', PDict []),
                 (U ''analysis_timestamp'', PStr ts)]"
    if "parse_openai_json loads r = Inr v" "\<not> py_truthy v"
    using company_401k_of_mapping [OF benefits_empty [OF that], of ts]
    by simp
  from a b c show ?thesis by blast
qed

theorem company_401k_sections_witness:
  \<open>field (analyze_company_401k loads_sample
            (Returns (text_response (U ''{"overview": {"match_percentage": 50}}'')))
            (U ''2025-01-01T09:00:00'')) (U ''overview'')
     = Some (PDict [(U ''match_percentage'', PNum 50)])
   \<and> field (analyze_company_401k loads_sample
            (Returns (text_response (U ''{"overview": {"match_percentage": 50}}'')))
            (U ''2025-01-01T09:00:00'')) (U ''roth_analysis'')
     = Some (PDict [])
   \<and> analyze_company_401k loads_sample (Returns (text_response (U ''not json'')))
        (U ''2025-01-01T09:00:00'') =
          PDict [(U ''overview'', PDict []),
                 (U ''recommendation'', PDict []),
                 (U ''contribution_strategy'', PDict []),
                 (U ''roth_analysis'', PDict []),
                 (U ''fund_options'', PDict []),
                 (U ''additional_benefits'', PDict []),
                 (U ''analysis_timestamp'', PStr (U ''2025-01-01T09:00:00''))]\<close>
  using 
    company_401k_sections [where loads = loads_sample
      and r = \<open>text_response (U ''{"overview": {"match_percentage": 50}}'')\<close>
      and kvs = "[(U ''overview'', PDict [(U ''match_percentage'', PNum 50)])]"
      and k = "U ''overview''" and ts = "U ''2025-01-01T09:00:00''"]
    company_401k_sections [where loads = loads_sample
      and r = \<open>text_response (U ''{"overview": {"match_percentage": 50}}'')\<close>
      and kvs = "[(U ''overview'', PDict [(U ''match_percentage'', PNum 50)])]"
      and k = "U ''roth_analysis''" and ts = "U ''2025-01-01T09:00:00''"]
    company_401k_sections [where loads = loads_sample
      and r = \<open>text_response (U ''not json'')\<close>
      and v = "PDict []" and ts = "U ''2025-01-01T09:00:00''"]
  by (simp add: parse_openai_json_def text_response_def loads_sample_def section_names_def
      strip_brace strip_not_json)

end
